theory Spec2Isabelle
  imports Complex_Main "HOL-Library.Log_Nat"
begin

section \<open>Python values\<close>

text \<open>
  The dashboard keeps every score in a pandas column of 64-bit floats. A float is modelled
  as a real number or NaN: \<open>None\<close> is NaN, \<open>Some v\<close> is the number \<open>v\<close>. Every arithmetic
  step of the source rounds its exact result to the nearest double (\<open>fl\<close> below). The
  infinities and the sign of zero are not represented: a result beyond the largest double
  is outside the model, and every statement below that fixes a computed value bounds the
  values it starts from.
\<close>

type_synonym pyfloat = "real option"

text \<open>The exceptions the modelled lines can raise.\<close>

datatype py_error = KeyError | IndexError | TypeError | AttributeError

text \<open>\<open>x < c\<close> and \<open>x >= c\<close> on floats: every comparison with NaN is false.\<close>

definition py_lt :: "pyfloat \<Rightarrow> real \<Rightarrow> bool" where
  "py_lt x c = (case x of None \<Rightarrow> False | Some v \<Rightarrow> v < c)"

definition py_ge :: "pyfloat \<Rightarrow> real \<Rightarrow> bool" where
  "py_ge x c = (case x of None \<Rightarrow> False | Some v \<Rightarrow> c \<le> v)"

section \<open>Double precision\<close>

text \<open>Rounding to the nearest integer, a tie going to the even one (\<open>rint\<close>).\<close>

definition rint :: "real \<Rightarrow> int" where
  "rint y =
    (let f = \<lfloor>y\<rfloor>; d = y - of_int f
     in if d < 1 / 2 then f else if 1 / 2 < d then f + 1 else if even f then f else f + 1)"

text \<open>
  The binary exponent of a positive number: the integer \<open>k\<close> with
  \<open>2 ^ k \<le> x < 2 ^ (k + 1)\<close>, computed on the integer part of \<open>x\<close> or of \<open>1 / x\<close>.
\<close>

definition ilog2 :: "real \<Rightarrow> int" where
  "ilog2 x =
    (if 1 \<le> x then int (floorlog 2 (nat \<lfloor>x\<rfloor>)) - 1
     else - int (floorlog 2 (nat (\<lceil>1 / x\<rceil> - 1))))"

text \<open>
  A double has 53 significant bits, so the doubles around \<open>x\<close> are the multiples of
  \<open>2 ^ (ilog2 \<bar>x\<bar> - 52)\<close>, and of \<open>2 ^ - 1074\<close> in the subnormal range. \<open>fl x\<close> is
  the multiple nearest to \<open>x\<close>, a tie going to the even one: the result of an arithmetic
  operation whose exact value is \<open>x\<close>, and the double a decimal literal \<open>x\<close> denotes.
\<close>

definition ulp_exp :: "real \<Rightarrow> int" where
  "ulp_exp x = max (ilog2 \<bar>x\<bar> - 52) (- 1074)"

definition fl :: "real \<Rightarrow> real" where
  "fl x = of_int (rint (x / 2 powi ulp_exp x)) * 2 powi ulp_exp x"

section \<open>The dataset\<close>

text \<open>
  One dict of the list \<open>data\<close> in \<open>get_fake_orgs\<close>, with its keys as fields: every
  dict of the list has them all, and a float under each metric key. The frame built from
  the list has one row per dict with the same cells.
\<close>

record org_dict =
  org :: string
  country :: string
  lat :: real
  lon :: real
  Finance :: pyfloat
  AI_Governance :: pyfloat
  Climate :: pyfloat
  Equity :: pyfloat
  Sustainability :: pyfloat

text \<open>A row of the data frame: the dict's columns and the added column \<open>Earth3_Index\<close>.\<close>

record org_row = org_dict +
  Earth3_Index :: pyfloat

definition data :: "org_dict list" where
  "data =
    [\<lparr>org = ''Unilever PLC'', country = ''United Kingdom'', lat = 51.5074, lon = - 0.1278,
      Finance = Some 78, AI_Governance = Some 85, Climate = Some 62, Equity = Some 71,
      Sustainability = Some 77\<rparr>,
     \<lparr>org = ''ACME Motors'', country = ''USA'', lat = 38.9072, lon = - 77.0369,
      Finance = Some 72, AI_Governance = Some 65, Climate = Some 58, Equity = Some 68,
      Sustainability = Some 60\<rparr>,
     \<lparr>org = ''Nippon Auto'', country = ''Japan'', lat = 35.6762, lon = 139.6503,
      Finance = Some 82, AI_Governance = Some 88, Climate = Some 74, Equity = Some 79,
      Sustainability = Some 85\<rparr>,
     \<lparr>org = ''GreenEnergy Ltd'', country = ''India'', lat = 28.6139, lon = 77.2090,
      Finance = Some 65, AI_Governance = Some 59, Climate = Some 50, Equity = Some 62,
      Sustainability = Some 55\<rparr>,
     \<lparr>org = ''Continental Foods'', country = ''Germany'', lat = 52.5200, lon = 13.4050,
      Finance = Some 83, AI_Governance = Some 80, Climate = Some 78, Equity = Some 75,
      Sustainability = Some 82\<rparr>,
     \<lparr>org = ''GlobalBank'', country = ''USA'', lat = 40.7128, lon = - 74.0060,
      Finance = Some 75, AI_Governance = Some 55, Climate = Some 68, Equity = Some 66,
      Sustainability = Some 70\<rparr>]"

section \<open>The index column\<close>

text \<open>The cells of a row under the five labels of \<open>metric_cols\<close>, in that order.\<close>

definition metric_cells :: "'a org_dict_scheme \<Rightarrow> pyfloat list" where
  "metric_cells d = [Finance d, AI_Governance d, Climate d, Equity d, Sustainability d]"

text \<open>
  \<open>.mean(...)\<close> of pandas skips NaN (\<open>skipna=True\<close>): it adds the numbers left to
  right in double precision and divides by their count; with no number it is NaN.
\<close>

fun dropna :: "pyfloat list \<Rightarrow> real list" where
  "dropna [] = []"
| "dropna (None # xs) = dropna xs"
| "dropna (Some v # xs) = v # dropna xs"

fun fsum :: "real \<Rightarrow> real list \<Rightarrow> real" where
  "fsum acc [] = acc"
| "fsum acc (v # vs) = fsum (fl (acc + v)) vs"

definition mean :: "pyfloat list \<Rightarrow> pyfloat" where
  "mean xs =
    (case dropna xs of
       [] \<Rightarrow> None
     | v # vs \<Rightarrow> Some (fl (fsum 0 (v # vs) / real (length (v # vs)))))"

text \<open>
  \<open>.round(1)\<close> is numpy's rounding to one decimal: multiply by ten, round to the nearest
  integer (\<open>rint\<close>), divide by ten, the product and the quotient each a double. NaN stays
  NaN.
\<close>

definition around1 :: "real \<Rightarrow> real" where
  "around1 x = fl (of_int (rint (fl (x * 10))) / 10)"

definition round1 :: "pyfloat \<Rightarrow> pyfloat" where
  "round1 x = map_option around1 x"

text \<open>Line 57: the row with its index, the rounded mean of its metric cells.\<close>

definition with_Earth3_Index :: "org_dict \<Rightarrow> org_row" where
  "with_Earth3_Index d = org_dict.extend d (org_row.fields (round1 (mean (metric_cells d))))"

section \<open>Loading a list of dicts\<close>

text \<open>
  A Python dict in general may lack a metric key, or hold a string under it. The value
  under a metric key is a float (\<open>None\<close> as a value is read by pandas as NaN) or a
  string; \<open>entries\<close> maps the keys the dict has to their values.
\<close>

datatype py_value = PyFloat pyfloat | PyStr string

record py_dict =
  dict_org :: string
  dict_country :: string
  dict_lat :: real
  dict_lon :: real
  entries :: "string \<rightharpoonup> py_value"

definition metric_cols :: "string list" where
  "metric_cols = [''Finance'', ''AI Governance'', ''Climate'', ''Equity'', ''Sustainability'']"

text \<open>
  \<open>pd.DataFrame(data)\<close> has a column for every key that some dict has; a dict without
  the key gets NaN in that column. \<open>df[metric_cols]\<close> raises KeyError when one of the
  five labels is no column.
\<close>

definition has_column :: "string \<Rightarrow> py_dict list \<Rightarrow> bool" where
  "has_column k ds = list_ex (\<lambda>d. entries d k \<noteq> None) ds"

text \<open>The mean over a frame with a string in a metric cell raises TypeError.\<close>

definition has_text :: "py_dict \<Rightarrow> bool" where
  "has_text d =
    list_ex (\<lambda>k. case entries d k of Some (PyStr s) \<Rightarrow> True | _ \<Rightarrow> False) metric_cols"

definition cell :: "py_dict \<Rightarrow> string \<Rightarrow> pyfloat" where
  "cell d k = (case entries d k of Some (PyFloat x) \<Rightarrow> x | _ \<Rightarrow> None)"

definition frame_row :: "py_dict \<Rightarrow> org_dict" where
  "frame_row d =
    \<lparr>org = dict_org d, country = dict_country d, lat = dict_lat d, lon = dict_lon d,
     Finance = cell d ''Finance'', AI_Governance = cell d ''AI Governance'',
     Climate = cell d ''Climate'', Equity = cell d ''Equity'',
     Sustainability = cell d ''Sustainability''\<rparr>"

text \<open>
  The body of \<open>get_fake_orgs\<close> from line 54 on, for any list of dicts: the frame, the
  selection of the metric columns, their row means, and the new column.
\<close>

definition get_fake_orgs_from :: "py_dict list \<Rightarrow> py_error + org_row list" where
  "get_fake_orgs_from ds =
    (if \<not> list_all (\<lambda>k. has_column k ds) metric_cols then Inl KeyError
     else if list_ex has_text ds then Inl TypeError
     else Inr (map (\<lambda>d. with_Earth3_Index (frame_row d)) ds))"

text \<open>A dict of the embedded list as a Python dict, and the function on the embedded list.\<close>

definition dict_of :: "org_dict \<Rightarrow> py_dict" where
  "dict_of d =
    \<lparr>dict_org = org d, dict_country = country d, dict_lat = lat d, dict_lon = lon d,
     entries = map_of
       [(''Finance'', PyFloat (Finance d)), (''AI Governance'', PyFloat (AI_Governance d)),
        (''Climate'', PyFloat (Climate d)), (''Equity'', PyFloat (Equity d)),
        (''Sustainability'', PyFloat (Sustainability d))]\<rparr>"


section \<open>Top-line figures\<close>


definition num_green :: "org_row list \<Rightarrow> nat" where
  "num_green df = length (filter (\<lambda>r. py_ge (Earth3_Index r) 70) df)"

definition num_red :: "org_row list \<Rightarrow> nat" where
  "num_red df = length (filter (\<lambda>r. py_lt (Earth3_Index r) 65) df)"

section \<open>Status colour\<close>

definition status_color :: "pyfloat \<Rightarrow> string" where
  "status_color val =
    (if py_lt val 65 then ''red''
     else if py_lt val 70 then ''orange''
     else ''green'')"

section \<open>Selected entity\<close>

text \<open>
  Line 148: the rows whose \<open>org\<close> equals the choice, then \<open>.iloc[0]\<close>, which raises
  IndexError on a frame with no row.
\<close>

definition sel :: "org_row list \<Rightarrow> string \<Rightarrow> py_error + org_row" where
  "sel df org_choice =
    (case filter (\<lambda>r. org r = org_choice) df of
       [] \<Rightarrow> Inl IndexError
     | r # _ \<Rightarrow> Inr r)"

section \<open>Alerts\<close>

text \<open>
  An alert is the tuple appended at lines 216, 218 and 220. The text of a float inside an
  f-string is Python's own formatting, taken as the parameter \<open>fmt\<close>.
\<close>

type_synonym alert = "string \<times> string \<times> string"

text \<open>One pass of the loop body over the row \<open>r\<close>; \<open>acc\<close> is the list \<open>alerts\<close> built so far.\<close>

definition alerts_body :: "(pyfloat \<Rightarrow> string) \<Rightarrow> alert list \<Rightarrow> org_row \<Rightarrow> alert list" where
  "alerts_body fmt acc r =
    (let acc = (if py_lt (Earth3_Index r) 65
                then acc @ [(org r, ''Low overall readiness'', ''Index '' @ fmt (Earth3_Index r))]
                else acc);
         acc = (if py_lt (AI_Governance r) 60
                then acc @ [(org r, ''AI governance weak'', ''AI Gov '' @ fmt (AI_Governance r))]
                else acc);
         acc = (if py_lt (Climate r) 60
                then acc @ [(org r, ''Climate resilience low'', ''Climate '' @ fmt (Climate r))]
                else acc)
     in acc)"

fun alerts_loop :: "(pyfloat \<Rightarrow> string) \<Rightarrow> alert list \<Rightarrow> org_row list \<Rightarrow> alert list" where
  "alerts_loop fmt acc [] = acc"
| "alerts_loop fmt acc (r # rs) = alerts_loop fmt (alerts_body fmt acc r) rs"

definition alerts :: "(pyfloat \<Rightarrow> string) \<Rightarrow> org_row list \<Rightarrow> alert list" where
  "alerts fmt df = alerts_loop fmt [] df"

text \<open>
  Lines 222 to 226: what the page shows for the list. The dash of line 226 is U+2014,
  three bytes in UTF-8.
\<close>

datatype st_call = St_success string | St_markdown string

definition em_dash :: string where
  "em_dash = [CHR 0xE2, CHR 0x80, CHR 0x94]"

definition alert_line :: "alert \<Rightarrow> string" where
  "alert_line a =
    (case a of (a0, a1, a2) \<Rightarrow>
       ''- **'' @ a0 @ ''** '' @ em_dash @ '' '' @ a1 @ '' ('' @ a2 @ '')'')"

definition show_alerts :: "alert list \<Rightarrow> st_call list" where
  "show_alerts as =
    (if as = []
     then [St_success ''No critical alerts detected across monitored entities.'']
     else map (\<lambda>a. St_markdown (alert_line a)) as)"

section \<open>The alert rules as the specification lists them\<close>

text \<open>
  The specification's three rules for one entity, each contributing one alert or none, in
  the order (1, 2, 3). The loop of the source is compared with this list below.
\<close>

definition entity_alerts :: "(pyfloat \<Rightarrow> string) \<Rightarrow> org_row \<Rightarrow> alert list" where
  "entity_alerts fmt r =
    (if py_lt (Earth3_Index r) 65
     then [(org r, ''Low overall readiness'', ''Index '' @ fmt (Earth3_Index r))] else []) @
    (if py_lt (AI_Governance r) 60
     then [(org r, ''AI governance weak'', ''AI Gov '' @ fmt (AI_Governance r))] else []) @
    (if py_lt (Climate r) 60
     then [(org r, ''Climate resilience low'', ''Climate '' @ fmt (Climate r))] else [])"

section \<open>Quantities of the specification\<close>

text \<open>
  A number rounded to one decimal place in exact arithmetic, a tie going to the even
  tenth: what the specification's \<open>round(mean(metrics), 1)\<close> denotes on real numbers.
  The source computes no such value; it is compared with the index below.
\<close>

definition round_to_tenth :: "real \<Rightarrow> real" where
  "round_to_tenth x = of_int (rint (x * 10)) / 10"


section \<open>Example inputs\<close>

text \<open>A dict whose scores leave the interval from 0 to 100.\<close>

definition out_of_range_org :: org_dict where
  "out_of_range_org =
    \<lparr>org = ''Out of range'', country = ''Nowhere'', lat = 0, lon = 0,
     Finance = Some 250, AI_Governance = Some (- 40), Climate = Some (1 / 2),
     Equity = Some 100, Sustainability = Some 62\<rparr>"

text \<open>A dict with every score at the upper end of the interval.\<close>

definition top_org :: org_dict where
  "top_org =
    \<lparr>org = ''Top'', country = ''Nowhere'', lat = 0, lon = 0,
     Finance = Some 100, AI_Governance = Some 100, Climate = Some 100,
     Equity = Some 100, Sustainability = Some 100\<rparr>"

text \<open>
  A dict written with the scores 87.2, 66.5, 61.6, 74.0 and 35.45; each cell holds the
  double its literal denotes.
\<close>

definition near_tie_org :: org_dict where
  "near_tie_org =
    \<lparr>org = ''Near tie'', country = ''Nowhere'', lat = 0, lon = 0,
     Finance = Some (fl 87.2), AI_Governance = Some 66.5, Climate = Some (fl 61.6),
     Equity = Some 74, Sustainability = Some (fl 35.45)\<rparr>"



text \<open>
  Python dicts that are not complete: one without the key \<open>Climate\<close>, one with a string
  under \<open>Finance\<close>, one with NaN under \<open>Climate\<close>, and a complete one.
\<close>

definition unilever_dict :: py_dict where
  "unilever_dict =
    \<lparr>dict_org = ''Unilever PLC'', dict_country = ''United Kingdom'',
     dict_lat = 51.5074, dict_lon = - 0.1278,
     entries = map_of
       [(''Finance'', PyFloat (Some 78)), (''AI Governance'', PyFloat (Some 85)),
        (''Climate'', PyFloat (Some 62)), (''Equity'', PyFloat (Some 71)),
        (''Sustainability'', PyFloat (Some 77))]\<rparr>"

definition nippon_no_climate :: py_dict where
  "nippon_no_climate =
    \<lparr>dict_org = ''Nippon Auto'', dict_country = ''Japan'',
     dict_lat = 35.6762, dict_lon = 139.6503,
     entries = map_of
       [(''Finance'', PyFloat (Some 82)), (''AI Governance'', PyFloat (Some 88)),
        (''Equity'', PyFloat (Some 79)), (''Sustainability'', PyFloat (Some 85))]\<rparr>"

definition nippon_nan_climate :: py_dict where
  "nippon_nan_climate =
    \<lparr>dict_org = ''Nippon Auto'', dict_country = ''Japan'',
     dict_lat = 35.6762, dict_lon = 139.6503,
     entries = map_of
       [(''Finance'', PyFloat (Some 82)), (''AI Governance'', PyFloat (Some 88)),
        (''Climate'', PyFloat None), (''Equity'', PyFloat (Some 79)),
        (''Sustainability'', PyFloat (Some 85))]\<rparr>"

definition acme_text_finance :: py_dict where
  "acme_text_finance =
    \<lparr>dict_org = ''ACME Motors'', dict_country = ''USA'',
     dict_lat = 38.9072, dict_lon = - 77.0369,
     entries = map_of
       [(''Finance'', PyStr ''72''), (''AI Governance'', PyFloat (Some 65)),
        (''Climate'', PyFloat (Some 58)), (''Equity'', PyFloat (Some 68)),
        (''Sustainability'', PyFloat (Some 60))]\<rparr>"

section \<open>The binary exponent\<close>

lemma ilog2_bounds:
  assumes "0 < x"
  shows "2 powi ilog2 x \<le> x \<and> x < 2 powi (ilog2 x + 1)"
proof (cases "1 \<le> x")
  case True
  define n where "n = nat \<lfloor>x\<rfloor>"
  define l where "l = floorlog 2 n"
  have n: "0 < n" "real n \<le> x" "x < real n + 1"
    using True by (simp_all add: n_def)
  from floorlog_bounds [of n 2] n(1)
  have b: "2 ^ (l - 1) \<le> n" "n < 2 ^ l" by (simp_all add: l_def)
  have l: "0 < l" using b(2) n(1) by (cases l) simp_all
  have i: "ilog2 x = int (l - 1)" using True l by (simp add: ilog2_def n_def l_def)
  have "(2::real) ^ (l - 1) \<le> real n" using b(1) by (metis of_nat_le_iff of_nat_numeral of_nat_power)
  then have "(2::real) ^ (l - 1) \<le> x" using n(2) by (rule order_trans)
  then have lo: "2 powi ilog2 x \<le> x" by (simp only: i power_int_of_nat)
  have "n + 1 \<le> 2 ^ l" using b(2) by simp
  then have "real n + 1 \<le> 2 ^ l" by (metis of_nat_le_iff of_nat_numeral of_nat_power of_nat_Suc Suc_eq_plus1 add.commute)
  then have "x < 2 ^ l" using n(3) by linarith
  moreover have "ilog2 x + 1 = int l" using i l by simp
  ultimately have "x < 2 powi (ilog2 x + 1)" by (simp only: power_int_of_nat)
  with lo show ?thesis by simp
next
  case False
  define y where "y = 1 / x"
  define n where "n = nat (\<lceil>y\<rceil> - 1)"
  define l where "l = floorlog 2 n"
  have y: "1 < y" using False assms by (simp add: y_def)
  then have c: "2 \<le> \<lceil>y\<rceil>" by linarith
  have n: "0 < n" "real n < y" "y \<le> real n + 1"
    using c by (simp_all add: n_def) linarith+
  from floorlog_bounds [of n 2] n(1)
  have b: "2 ^ (l - 1) \<le> n" "n < 2 ^ l" by (simp_all add: l_def)
  have l: "0 < l" using b(2) n(1) by (cases l) simp_all
  have i: "ilog2 x = - int l" using False by (simp add: ilog2_def n_def l_def y_def)
  have "n + 1 \<le> 2 ^ l" using b(2) by simp
  then have "real n + 1 \<le> 2 ^ l" by (metis of_nat_le_iff of_nat_numeral of_nat_power of_nat_Suc Suc_eq_plus1 add.commute)
  then have "y \<le> 2 ^ l" using n(3) by linarith
  then have "1 / 2 ^ l \<le> x" using assms by (simp add: y_def field_simps)
  then have lo: "2 powi ilog2 x \<le> x" by (simp add: i power_int_minus field_simps)
  have "(2::real) ^ (l - 1) \<le> real n" using b(1) by (metis of_nat_le_iff of_nat_numeral of_nat_power)
  then have "(2::real) ^ (l - 1) < y" using n(2) by (rule le_less_trans)
  then have "x < 1 / 2 ^ (l - 1)" using assms by (simp add: y_def field_simps)
  moreover have "ilog2 x + 1 = - int (l - 1)" using i l by simp
  ultimately have "x < 2 powi (ilog2 x + 1)" by (simp add: power_int_minus field_simps)
  with lo show ?thesis by simp
qed

section \<open>Rounding\<close>

lemma rint_near: "\<bar>of_int (rint y) - y\<bar> \<le> 1 / 2"
  unfolding rint_def Let_def by (auto; linarith)

lemma rint_ge: "of_int k \<le> y \<Longrightarrow> k \<le> rint y"
proof -
  assume "of_int k \<le> y"
  then have "k \<le> \<lfloor>y\<rfloor>" by (simp add: le_floor_iff)
  then show ?thesis unfolding rint_def Let_def by auto
qed

lemma rint_le: "y \<le> of_int k \<Longrightarrow> rint y \<le> k"
  unfolding rint_def Let_def by (auto simp: floor_le_iff)

lemma ilog2_less: "x < 2 ^ n \<Longrightarrow> 0 < n \<Longrightarrow> ilog2 x < int n"
proof (cases "1 \<le> x")
  case True
  assume "x < 2 ^ n"
  then have "\<lfloor>x\<rfloor> < 2 ^ n" by (simp add: floor_less_iff)
  then have "nat \<lfloor>x\<rfloor> < 2 ^ n" using True by (simp add: nat_less_iff)
  then have "floorlog 2 (nat \<lfloor>x\<rfloor>) \<le> n" by (intro floorlog_leI) simp_all
  with True show ?thesis by (simp add: ilog2_def)
next
  case False
  assume "0 < n"
  with False show ?thesis by (simp add: ilog2_def)
qed

lemma ulp_exp_le: "\<bar>x\<bar> < 2 ^ n \<Longrightarrow> 0 < n \<Longrightarrow> n \<le> 1000 \<Longrightarrow> ulp_exp x \<le> int n - 53"
  using ilog2_less [of "\<bar>x\<bar>" n] by (simp add: ulp_exp_def)

lemma fl_err_ulp: "\<bar>fl x - x\<bar> \<le> 2 powi ulp_exp x / 2"
proof -
  let ?u = "(2::real) powi ulp_exp x"
  have u: "0 < ?u" by simp
  have "\<bar>of_int (rint (x / ?u)) - x / ?u\<bar> \<le> 1 / 2" by (rule rint_near)
  then have "\<bar>of_int (rint (x / ?u)) - x / ?u\<bar> * ?u \<le> 1 / 2 * ?u"
    using u by (simp only: mult_le_cancel_right_pos)
  moreover have "(of_int (rint (x / ?u)) - x / ?u) * ?u = fl x - x"
    using u by (simp add: fl_def left_diff_distrib)
  then have "\<bar>of_int (rint (x / ?u)) - x / ?u\<bar> * ?u = \<bar>fl x - x\<bar>"
    using u by (metis abs_mult abs_of_pos)
  ultimately show ?thesis by simp
qed

text \<open>Below 2048 a double is at most \<open>2 ^ - 43\<close> away from the number it rounds.\<close>

lemma fl_err: "\<bar>x\<bar> < 2048 \<Longrightarrow> \<bar>fl x - x\<bar> \<le> 1 / 2 ^ 43"
proof -
  assume "\<bar>x\<bar> < 2048"
  then have "ulp_exp x \<le> - 42" using ulp_exp_le [of x 11] by simp
  then have "(2::real) powi ulp_exp x \<le> 2 powi (- 42)"
    by (intro power_int_increasing) simp_all
  with fl_err_ulp [of x] show ?thesis by (simp add: power_int_minus field_simps)
qed

lemma fl_nonneg: "0 \<le> x \<Longrightarrow> 0 \<le> fl x"
  using rint_ge [of 0 "x / 2 powi ulp_exp x"] by (simp add: fl_def)

text \<open>Rounding does not cross a natural number below \<open>2 ^ 53\<close>: these are doubles.\<close>

lemma fl_le_nat: "0 \<le> x \<Longrightarrow> x \<le> real b \<Longrightarrow> b < 2 ^ 53 \<Longrightarrow> fl x \<le> real b"
proof -
  assume x: "0 \<le> x" "x \<le> real b" and b: "b < 2 ^ 53"
  from x b have "x < 2 ^ 53"
    by (metis le_less_trans of_nat_less_iff of_nat_numeral of_nat_power)
  with x have "ulp_exp x \<le> 0" using ulp_exp_le [of x 53] by simp
  then obtain n where n: "ulp_exp x = - int n"
    by (metis neg_0_le_iff_le nonneg_int_cases minus_minus)
  have p: "(2::real) powi ulp_exp x = 1 / 2 ^ n"
    by (simp add: n power_int_minus field_simps)
  have "x / (1 / 2 ^ n) \<le> of_int (int b * 2 ^ n)"
    using x by (simp add: field_simps)
  then have "rint (x / (1 / 2 ^ n)) \<le> int b * 2 ^ n" by (rule rint_le)
  then have "real_of_int (rint (x / (1 / 2 ^ n))) \<le> real_of_int (int b * 2 ^ n)"
    by (simp only: of_int_le_iff)
  then show ?thesis by (simp add: fl_def p field_simps)
qed

text \<open>An integer below \<open>2 ^ 53\<close> in absolute value is a double.\<close>

lemma rint_of_int: "rint (of_int m) = m"
  by (simp add: rint_def)

lemma fl_of_int: "\<bar>k\<bar> < 2 ^ 53 \<Longrightarrow> fl (of_int k) = of_int k"
proof -
  assume "\<bar>k\<bar> < 2 ^ 53"
  then have "\<bar>real_of_int k\<bar> < 2 ^ 53"
    by (metis of_int_abs of_int_less_iff of_int_numeral of_int_power)
  then have "ulp_exp (of_int k) \<le> 0" using ulp_exp_le [of "of_int k" 53] by simp
  then obtain n where n: "ulp_exp (real_of_int k) = - int n"
    by (metis neg_0_le_iff_le nonneg_int_cases minus_minus)
  have p: "(2::real) powi ulp_exp (real_of_int k) = 1 / 2 ^ n"
    by (simp add: n power_int_minus field_simps)
  have "real_of_int k / (1 / 2 ^ n) = of_int (k * 2 ^ n)" by simp
  then have "rint (real_of_int k / (1 / 2 ^ n)) = k * 2 ^ n" by (simp only: rint_of_int)
  then show ?thesis by (simp add: fl_def p)
qed

section \<open>The float mean and its rounding on scores between 0 and 100\<close>

lemma fsum_bounds:
  assumes "\<forall>v\<in>set vs. 0 \<le> v \<and> v \<le> 100"
    and "0 \<le> acc" and "acc \<le> real (100 * m)" and "m + length vs \<le> 20"
  shows "0 \<le> fsum acc vs \<and> fsum acc vs \<le> real (100 * (m + length vs)) \<and>
         \<bar>fsum acc vs - (acc + sum_list vs)\<bar> \<le> real (length vs) / 2 ^ 43"
  using assms
proof (induction vs arbitrary: acc m)
  case Nil
  then show ?case by simp
next
  case (Cons v vs)
  let ?a = "fl (acc + v)"
  from Cons.prems have v: "0 \<le> v" "v \<le> 100" and m: "Suc m + length vs \<le> 20" by simp_all
  from v Cons.prems have s: "0 \<le> acc + v" "acc + v \<le> real (100 * Suc m)" by simp_all
  from m have "100 * Suc m \<le> 2000" by simp
  then have small: "100 * Suc m < 2 ^ 53" by simp
  have a0: "0 \<le> ?a" using s(1) by (rule fl_nonneg)
  have a1: "?a \<le> real (100 * Suc m)" using s small by (rule fl_le_nat)
  from s m have "\<bar>acc + v\<bar> < 2048" by simp
  then have e: "\<bar>?a - (acc + v)\<bar> \<le> 1 / 2 ^ 43" by (rule fl_err)
  from Cons.prems have "\<forall>v\<in>set vs. 0 \<le> v \<and> v \<le> 100" by simp
  from Cons.IH [OF this a0 a1 m]
  have ih: "0 \<le> fsum ?a vs" "fsum ?a vs \<le> real (100 * (Suc m + length vs))"
    "\<bar>fsum ?a vs - (?a + sum_list vs)\<bar> \<le> real (length vs) / 2 ^ 43"
    by simp_all
  have "\<bar>fsum ?a vs - (acc + v + sum_list vs)\<bar> \<le> real (length vs) / 2 ^ 43 + 1 / 2 ^ 43"
    using ih(3) e by linarith
  then have "\<bar>fsum ?a vs - (acc + sum_list (v # vs))\<bar> \<le> real (length (v # vs)) / 2 ^ 43"
    by (simp add: add_divide_distrib add.assoc)
  with ih(1,2) show ?case by simp
qed

lemma fmean_bounds:
  assumes "\<forall>v\<in>set vs. 0 \<le> v \<and> v \<le> 100" and "vs \<noteq> []" and "length vs \<le> 20"
  shows "0 \<le> fl (fsum 0 vs / real (length vs)) \<and>
         fl (fsum 0 vs / real (length vs)) \<le> 100 \<and>
         \<bar>fl (fsum 0 vs / real (length vs)) - sum_list vs / real (length vs)\<bar> \<le> 1 / 2 ^ 42"
proof -
  let ?n = "real (length vs)"
  let ?q = "fsum 0 vs / ?n"
  have n: "0 < ?n" using assms(2) by simp
  from fsum_bounds [of vs 0 0] assms
  have b: "0 \<le> fsum 0 vs" "fsum 0 vs \<le> 100 * ?n" "\<bar>fsum 0 vs - sum_list vs\<bar> \<le> ?n / 2 ^ 43"
    by simp_all
  have q0: "0 \<le> ?q" using b(1) n by simp
  have q1: "?q \<le> real 100" using b(2) n by (simp add: field_simps)
  have f0: "0 \<le> fl ?q" using q0 by (rule fl_nonneg)
  have f1: "fl ?q \<le> real 100" using q0 q1 by (rule fl_le_nat) simp
  have "\<bar>?q\<bar> < 2048" using q0 q1 by simp
  then have e1: "\<bar>fl ?q - ?q\<bar> \<le> 1 / 2 ^ 43" by (rule fl_err)
  have "\<bar>?q - sum_list vs / ?n\<bar> = \<bar>fsum 0 vs - sum_list vs\<bar> / ?n"
    using n by (simp add: diff_divide_distrib [symmetric])
  also have "\<dots> \<le> (?n / 2 ^ 43) / ?n" using b(3) n by (simp add: divide_right_mono)
  also have "\<dots> = 1 / 2 ^ 43" using n by simp
  finally have e2: "\<bar>?q - sum_list vs / ?n\<bar> \<le> 1 / 2 ^ 43" .
  have "\<bar>fl ?q - sum_list vs / ?n\<bar> \<le> 1 / 2 ^ 43 + 1 / 2 ^ 43" using e1 e2 by linarith
  then have "\<bar>fl ?q - sum_list vs / ?n\<bar> \<le> 1 / 2 ^ 42" by simp
  with f0 f1 show ?thesis by simp
qed

lemma around1_bounds:
  assumes "0 \<le> x" and "x \<le> 100"
  shows "0 \<le> around1 x \<and> around1 x \<le> 100 \<and> \<bar>around1 x - x\<bar> \<le> 1 / 20 + 1 / 2 ^ 42 \<and>
         (\<exists>k::int. around1 x = fl (of_int k / 10))"
proof -
  let ?y = "fl (x * 10)"
  let ?k = "rint ?y"
  have y0: "0 \<le> ?y" using assms by (intro fl_nonneg) simp
  have y1: "?y \<le> real 1000" using assms by (intro fl_le_nat) simp_all
  have "\<bar>x * 10\<bar> < 2048" using assms by simp
  then have ey: "\<bar>?y - x * 10\<bar> \<le> 1 / 2 ^ 43" by (rule fl_err)
  have k0: "0 \<le> ?k" using y0 by (intro rint_ge) simp
  have k1: "?k \<le> 1000" using y1 by (intro rint_le) simp
  have ek: "\<bar>of_int ?k - ?y\<bar> \<le> 1 / 2" by (rule rint_near)
  let ?q = "real_of_int ?k / 10"
  have q0: "0 \<le> ?q" using k0 by simp
  have q1: "?q \<le> real 100" using k1 by simp
  have i0: "0 \<le> fl ?q" using q0 by (rule fl_nonneg)
  have i1: "fl ?q \<le> real 100" using q0 q1 by (rule fl_le_nat) simp
  have "\<bar>?q\<bar> < 2048" using q0 q1 by simp
  then have ei: "\<bar>fl ?q - ?q\<bar> \<le> 1 / 2 ^ 43" by (rule fl_err)
  have kx: "\<bar>real_of_int ?k - x * 10\<bar> \<le> 1 / 2 + 1 / 2 ^ 43"
    using ek ey by linarith
  have "?q - x = (real_of_int ?k - x * 10) / 10" by simp
  then have "\<bar>?q - x\<bar> = \<bar>real_of_int ?k - x * 10\<bar> / 10" by (simp only: abs_divide abs_numeral)
  also have "\<dots> \<le> (1 / 2 + 1 / 2 ^ 43) / 10" using kx by (intro divide_right_mono) simp_all
  finally have "\<bar>?q - x\<bar> \<le> (1 / 2 + 1 / 2 ^ 43) / 10" .
  with ei have "\<bar>fl ?q - x\<bar> \<le> 1 / 2 ^ 43 + (1 / 2 + 1 / 2 ^ 43) / 10"
    by linarith
  also have "\<dots> \<le> 1 / 20 + 1 / 2 ^ 42" by simp
  finally have "\<bar>fl ?q - x\<bar> \<le> 1 / 20 + 1 / 2 ^ 42" .
  moreover have "around1 x = fl ?q" by (simp add: around1_def)
  ultimately show ?thesis using i0 i1 by auto
qed

text \<open>The rounded float mean of up to twenty scores between 0 and 100.\<close>

lemma round1_mean_bounds:
  assumes "\<forall>v\<in>set vs. 0 \<le> v \<and> v \<le> 100" and "vs \<noteq> []" and "length vs \<le> 20"
  shows "\<exists>i. round1 (mean (map Some vs)) = Some i \<and> 0 \<le> i \<and> i \<le> 100 \<and>
             \<bar>i - sum_list vs / real (length vs)\<bar> \<le> 1 / 20 + 1 / 2 ^ 41 \<and>
             (\<exists>k::int. i = fl (of_int k / 10))"
proof -
  let ?m = "fl (fsum 0 vs / real (length vs))"
  have d: "dropna (map Some vs) = vs" by (induction vs) simp_all
  from assms(2) obtain w ws where vs: "vs = w # ws" by (cases vs) auto
  have r: "round1 (mean (map Some vs)) = Some (around1 ?m)"
    unfolding mean_def d round1_def by (simp add: vs)
  from fmean_bounds [OF assms]
  have m: "0 \<le> ?m" "?m \<le> 100" "\<bar>?m - sum_list vs / real (length vs)\<bar> \<le> 1 / 2 ^ 42"
    by simp_all
  from around1_bounds [OF m(1,2)]
  have a: "0 \<le> around1 ?m" "around1 ?m \<le> 100" "\<bar>around1 ?m - ?m\<bar> \<le> 1 / 20 + 1 / 2 ^ 42"
    "\<exists>k::int. around1 ?m = fl (of_int k / 10)"
    by simp_all
  have "\<bar>around1 ?m - sum_list vs / real (length vs)\<bar> \<le> 1 / 20 + 1 / 2 ^ 42 + 1 / 2 ^ 42"
    using a(3) m(3) by linarith
  then have "\<bar>around1 ?m - sum_list vs / real (length vs)\<bar> \<le> 1 / 20 + 1 / 2 ^ 41" by simp
  with r a show ?thesis by simp
qed

section \<open>Evaluating the float operations\<close>

lemmas fl_eval = fl_def ulp_exp_def ilog2_def rint_def Let_def compute_floorlog power_int_minus

lemma Earth3_Index_with: "Earth3_Index (with_Earth3_Index d) = round1 (mean (metric_cells d))"
  by (simp add: with_Earth3_Index_def org_dict.defs org_row.defs)

lemma with_Earth3_Index_fields:
  "org (with_Earth3_Index d) = org d"
  "AI_Governance (with_Earth3_Index d) = AI_Governance d"
  "Climate (with_Earth3_Index d) = Climate d"
  "metric_cells (with_Earth3_Index d) = metric_cells d"
  by (simp_all add: with_Earth3_Index_def metric_cells_def org_dict.defs org_row.defs)

lemma index_five:
  assumes "Finance d = Some f" and "AI_Governance d = Some a" and "Climate d = Some c"
    and "Equity d = Some e" and "Sustainability d = Some s"
  shows "Earth3_Index (with_Earth3_Index d) = round1 (mean (map Some [f, a, c, e, s]))"
  using assms by (simp add: Earth3_Index_with metric_cells_def)

lemma data_indices:
  "map Earth3_Index (map with_Earth3_Index data) =
   map Some [fl 74.6, fl 64.6, fl 81.6, fl 58.2, fl 79.6, fl 66.8]"
  by (simp add: data_def Earth3_Index_with metric_cells_def mean_def round1_def)
    (simp add: around1_def fl_eval)

section \<open>Loading complete dicts\<close>

lemma frame_row_dict_of: "frame_row (dict_of d) = d"
  by (simp add: frame_row_def dict_of_def cell_def)

lemma has_text_dict_of: "\<not> has_text (dict_of d)"
  by (simp add: has_text_def dict_of_def metric_cols_def)

lemma has_column_dict_of: "ds \<noteq> [] \<Longrightarrow> k \<in> set metric_cols \<Longrightarrow> has_column k (map dict_of ds)"
  by (cases ds) (auto simp: has_column_def dict_of_def metric_cols_def)

lemma load_complete:
  "ds \<noteq> [] \<Longrightarrow> get_fake_orgs_from (map dict_of ds) = Inr (map with_Earth3_Index ds)"
  by (simp add: get_fake_orgs_from_def list_all_iff list_ex_iff has_column_dict_of
      has_text_dict_of frame_row_dict_of comp_def)

section \<open>The index of a complete entity\<close>

text \<open>
  C1, as the specification states it, fails: for the scores 87.2, 66.5, 61.6, 74.0 and
  35.45 the mean of the five stored values is above 64.95, so rounded to one decimal it
  is 65.0, and the index the source computes is the double 64.9.
\<close>

theorem index_rounded_mean_counterexample:
  "Earth3_Index (with_Earth3_Index near_tie_org) = Some (fl 64.9) \<and>
   64.95 < (fl 87.2 + 66.5 + fl 61.6 + 74 + fl 35.45) / 5 \<and>
   round_to_tenth ((fl 87.2 + 66.5 + fl 61.6 + 74 + fl 35.45) / 5) = 65 \<and>
   fl 64.9 < 64.95 \<and> fl 65 = 65"
  by (simp add: near_tie_org_def Earth3_Index_with metric_cells_def mean_def round1_def)
    (simp add: around1_def round_to_tenth_def fl_eval)

text \<open>
  C1, amended. For a dict that has all five metric values, in a list of such dicts, the
  frame is built whatever the values are (no range check). The index is the result of
  the source's float computation: the five values added left to right, the sum divided
  by five, the mean multiplied by ten, rounded to the nearest integer and divided by ten,
  each step rounded to a double. For values between 0 and 100 the index is the double
  nearest to a multiple of one tenth and at most \<open>1 / 20 + 2 ^ - 41\<close> away from the
  arithmetic mean of the five values: it is the mean rounded to one decimal, except that
  next to a decimal tie it can be the neighbouring tenth.
\<close>

theorem index_near_mean:
  assumes "d \<in> set ds"
    and "Finance d = Some f" and "AI_Governance d = Some a" and "Climate d = Some c"
    and "Equity d = Some e" and "Sustainability d = Some s"
  shows "(\<exists>rows. get_fake_orgs_from (map dict_of ds) = Inr rows \<and> length rows = length ds) \<and>
         (list_all (\<lambda>v. \<bar>v\<bar> \<le> 10 ^ 300) [f, a, c, e, s] \<longrightarrow>
            Earth3_Index (with_Earth3_Index d) =
              Some (fl (of_int (rint (fl
                (fl (fl (fl (fl (fl (fl (0 + f) + a) + c) + e) + s) / 5) * 10))) / 10))) \<and>
         (list_all (\<lambda>v. 0 \<le> v \<and> v \<le> 100) [f, a, c, e, s] \<longrightarrow>
            (\<exists>i. Earth3_Index (with_Earth3_Index d) = Some i \<and>
                 (\<exists>k::int. i = fl (of_int k / 10)) \<and>
                 \<bar>i - (f + a + c + e + s) / 5\<bar> \<le> 1 / 20 + 1 / 2 ^ 41))"
proof (intro conjI impI)
  from assms(1) have "ds \<noteq> []" by auto
  then show "\<exists>rows. get_fake_orgs_from (map dict_of ds) = Inr rows \<and> length rows = length ds"
    by (simp add: load_complete)
next
  show "Earth3_Index (with_Earth3_Index d) =
      Some (fl (of_int (rint (fl
        (fl (fl (fl (fl (fl (fl (0 + f) + a) + c) + e) + s) / 5) * 10))) / 10))"
    using assms by (simp add: Earth3_Index_with metric_cells_def mean_def round1_def around1_def)
next
  assume "list_all (\<lambda>v. 0 \<le> v \<and> v \<le> 100) [f, a, c, e, s]"
  then have r: "\<forall>v\<in>set [f, a, c, e, s]. 0 \<le> v \<and> v \<le> 100" by simp
  have "\<exists>i. round1 (mean (map Some [f, a, c, e, s])) = Some i \<and> 0 \<le> i \<and> i \<le> 100 \<and>
      \<bar>i - sum_list [f, a, c, e, s] / real (length [f, a, c, e, s])\<bar> \<le> 1 / 20 + 1 / 2 ^ 41 \<and>
      (\<exists>k::int. i = fl (of_int k / 10))"
    using r by (rule round1_mean_bounds) simp_all
  then obtain i where i: "round1 (mean (map Some [f, a, c, e, s])) = Some i"
    "\<bar>i - sum_list [f, a, c, e, s] / real (length [f, a, c, e, s])\<bar> \<le> 1 / 20 + 1 / 2 ^ 41"
    "\<exists>k::int. i = fl (of_int k / 10)"
    by blast
  have "sum_list [f, a, c, e, s] / real (length [f, a, c, e, s]) = (f + a + c + e + s) / 5"
    by (simp add: add.assoc)
  with i(2) have "\<bar>i - (f + a + c + e + s) / 5\<bar> \<le> 1 / 20 + 1 / 2 ^ 41" by (simp only:)
  moreover have "Earth3_Index (with_Earth3_Index d) = Some i"
    using index_five [OF assms(2-6)] i(1) by (simp only:)
  ultimately show "\<exists>i. Earth3_Index (with_Earth3_Index d) = Some i \<and>
      (\<exists>k::int. i = fl (of_int k / 10)) \<and> \<bar>i - (f + a + c + e + s) / 5\<bar> \<le> 1 / 20 + 1 / 2 ^ 41"
    using i(3) by blast
qed

theorem index_near_mean_witness:
  "(\<exists>rows. get_fake_orgs_from (map dict_of [out_of_range_org, top_org]) = Inr rows \<and>
      length rows = 2) \<and>
   Earth3_Index (with_Earth3_Index out_of_range_org) = Some 74.5 \<and>
   (\<exists>i. Earth3_Index (with_Earth3_Index top_org) = Some i \<and> \<bar>i - 100\<bar> \<le> 1 / 20 + 1 / 2 ^ 41)"
proof -
  have m: "Finance out_of_range_org = Some 250" "AI_Governance out_of_range_org = Some (- 40)"
    "Climate out_of_range_org = Some (1 / 2)" "Equity out_of_range_org = Some 100"
    "Sustainability out_of_range_org = Some 62"
    by (simp_all add: out_of_range_org_def)
  have t: "Finance top_org = Some 100" "AI_Governance top_org = Some 100"
    "Climate top_org = Some 100" "Equity top_org = Some 100" "Sustainability top_org = Some 100"
    by (simp_all add: top_org_def)
  have "out_of_range_org \<in> set [out_of_range_org, top_org]" by simp
  note w = index_near_mean [OF this m]
  have "top_org \<in> set [out_of_range_org, top_org]" by simp
  note v = index_near_mean [OF this t]
  from w [THEN conjunct1]
  have 1: "\<exists>rows. get_fake_orgs_from (map dict_of [out_of_range_org, top_org]) = Inr rows \<and>
      length rows = 2"
    by (simp add: eval_nat_numeral)
  have "list_all (\<lambda>v. \<bar>v\<bar> \<le> 10 ^ 300) [250, - 40, 1 / 2, 100, 62::real]" by simp
  from w [THEN conjunct2, THEN conjunct1, THEN mp, OF this]
  have "Earth3_Index (with_Earth3_Index out_of_range_org) =
      Some (fl (of_int (rint (fl
        (fl (fl (fl (fl (fl (fl (0 + 250) + - 40) + 1 / 2) + 100) + 62) / 5) * 10))) / 10))" .
  also have "\<dots> = Some 74.5" by (simp add: fl_eval)
  finally have 2: "Earth3_Index (with_Earth3_Index out_of_range_org) = Some 74.5" .
  have "list_all (\<lambda>v. 0 \<le> v \<and> v \<le> 100) [100, 100, 100, 100, 100::real]" by simp
  from v [THEN conjunct2, THEN conjunct2, THEN mp, OF this]
  obtain i where "Earth3_Index (with_Earth3_Index top_org) = Some i"
    and "\<bar>i - (100 + 100 + 100 + 100 + 100) / 5\<bar> \<le> 1 / 20 + 1 / 2 ^ 41"
    by blast
  then have 3: "\<exists>i. Earth3_Index (with_Earth3_Index top_org) = Some i \<and>
      \<bar>i - 100\<bar> \<le> 1 / 20 + 1 / 2 ^ 41"
    by simp
  from 1 2 3 show ?thesis by blast
qed

text \<open>
  C9. When the five metric values all lie between 0 and 100, so does the index.
\<close>

theorem index_bounds:
  assumes "Finance d = Some f" and "AI_Governance d = Some a" and "Climate d = Some c"
    and "Equity d = Some e" and "Sustainability d = Some s"
    and "0 \<le> f \<and> f \<le> 100" and "0 \<le> a \<and> a \<le> 100" and "0 \<le> c \<and> c \<le> 100"
    and "0 \<le> e \<and> e \<le> 100" and "0 \<le> s \<and> s \<le> 100"
  shows "\<exists>i. Earth3_Index (with_Earth3_Index d) = Some i \<and> 0 \<le> i \<and> i \<le> 100"
proof -
  have r: "\<forall>v\<in>set [f, a, c, e, s]. 0 \<le> v \<and> v \<le> 100" using assms(6-10) by simp
  have "\<exists>i. round1 (mean (map Some [f, a, c, e, s])) = Some i \<and> 0 \<le> i \<and> i \<le> 100 \<and>
      \<bar>i - sum_list [f, a, c, e, s] / real (length [f, a, c, e, s])\<bar> \<le> 1 / 20 + 1 / 2 ^ 41 \<and>
      (\<exists>k::int. i = fl (of_int k / 10))"
    using r by (rule round1_mean_bounds) simp_all
  then obtain i where "round1 (mean (map Some [f, a, c, e, s])) = Some i" and "0 \<le> i"
    and "i \<le> 100"
    by blast
  then show ?thesis using index_five [OF assms(1-5)] by simp
qed

theorem index_bounds_witness:
  "\<exists>i. Earth3_Index (with_Earth3_Index top_org) = Some i \<and> 0 \<le> i \<and> i \<le> 100"
  using index_bounds [of top_org 100 100 100 100 100] by (simp add: top_org_def)

section \<open>Status\<close>

text \<open>
  C2. The specification's statuses critical, warning and healthy are the colours red,
  orange and green of \<open>status_color\<close>. For every number \<open>v\<close> the colour is red exactly
  when \<open>v < 65\<close>, orange exactly when \<open>65 \<le> v < 70\<close> and green exactly when \<open>70 \<le> v\<close>;
  every value gets one of the three colours.
\<close>

theorem status_color_partition:
  "(status_color (Some v) = ''red'' \<longleftrightarrow> v < 65) \<and>
   (status_color (Some v) = ''orange'' \<longleftrightarrow> 65 \<le> v \<and> v < 70) \<and>
   (status_color (Some v) = ''green'' \<longleftrightarrow> 70 \<le> v) \<and>
   status_color x \<in> {''red'', ''orange'', ''green''}"
  by (auto simp: status_color_def py_lt_def)

section \<open>The alert loop\<close>

lemma alerts_body_append: "alerts_body fmt acc r = acc @ entity_alerts fmt r"
  by (simp add: alerts_body_def entity_alerts_def Let_def)

lemma alerts_loop_append: "alerts_loop fmt acc df = acc @ concat (map (entity_alerts fmt) df)"
  by (induction df arbitrary: acc) (simp_all add: alerts_body_append)

lemma alerts_concat: "alerts fmt df = concat (map (entity_alerts fmt) df)"
  by (simp add: alerts_def alerts_loop_append)

text \<open>
  C3. The list built by the loop is the concatenation, in catalog order, of each row's
  alerts; a row's alerts are those of the three rules in the order (1, 2, 3), each present
  exactly when its comparison holds, so a row gives at most three. Nothing is sorted and
  nothing is dropped.
\<close>

theorem alerts_rules:
  "alerts fmt df = concat (map (entity_alerts fmt) df) \<and>
   alerts fmt (r # df) = alerts fmt [r] @ alerts fmt df \<and>
   alerts fmt [r] =
     (if py_lt (Earth3_Index r) 65
      then [(org r, ''Low overall readiness'', ''Index '' @ fmt (Earth3_Index r))] else []) @
     (if py_lt (AI_Governance r) 60
      then [(org r, ''AI governance weak'', ''AI Gov '' @ fmt (AI_Governance r))] else []) @
     (if py_lt (Climate r) 60
      then [(org r, ''Climate resilience low'', ''Climate '' @ fmt (Climate r))] else []) \<and>
   length (alerts fmt [r]) \<le> 3"
  by (simp add: alerts_concat entity_alerts_def)

section \<open>Aggregate counts\<close>

lemma counts_filter:
  "num_green df + num_red df =
   length (filter (\<lambda>r. py_ge (Earth3_Index r) 70 \<or> py_lt (Earth3_Index r) 65) df)"
  unfolding num_green_def num_red_def
  by (induction df) (auto simp: py_ge_def py_lt_def split: option.splits)

text \<open>
  C4. The healthy count is the number of rows with index at least 70 and the at-risk
  count the number of rows with index below 65, each counted on its own. Together they
  never exceed the number of rows, and they stay below it when some row has an index from
  65 up to, not including, 70.
\<close>

theorem count_invariant:
  "num_green df = length (filter (\<lambda>r. \<exists>v. Earth3_Index r = Some v \<and> 70 \<le> v) df) \<and>
   num_red df = length (filter (\<lambda>r. \<exists>v. Earth3_Index r = Some v \<and> v < 65) df) \<and>
   num_green df + num_red df \<le> length df \<and>
   ((\<exists>r v. r \<in> set df \<and> Earth3_Index r = Some v \<and> 65 \<le> v \<and> v < 70) \<longrightarrow>
      num_green df + num_red df < length df)"
proof (intro conjI impI)
  show "num_green df = length (filter (\<lambda>r. \<exists>v. Earth3_Index r = Some v \<and> 70 \<le> v) df)"
    unfolding num_green_def py_ge_def
    by (rule arg_cong [where f = length], rule filter_cong) (auto split: option.splits)
next
  show "num_red df = length (filter (\<lambda>r. \<exists>v. Earth3_Index r = Some v \<and> v < 65) df)"
    unfolding num_red_def py_lt_def
    by (rule arg_cong [where f = length], rule filter_cong) (auto split: option.splits)
next
  show "num_green df + num_red df \<le> length df"
    by (simp add: counts_filter)
next
  assume "\<exists>r v. r \<in> set df \<and> Earth3_Index r = Some v \<and> 65 \<le> v \<and> v < 70"
  then obtain r v where r: "r \<in> set df" "Earth3_Index r = Some v" "65 \<le> v" "v < 70"
    by blast
  let ?P = "\<lambda>r. py_ge (Earth3_Index r) 70 \<or> py_lt (Earth3_Index r) 65"
  have "\<not> ?P r" using r by (simp add: py_ge_def py_lt_def)
  with r(1) have "length (filter ?P df) < length df"
    by (auto intro: length_filter_less)
  then show "num_green df + num_red df < length df"
    by (simp add: counts_filter)
qed

theorem count_invariant_witness:
  "num_green (map with_Earth3_Index data) + num_red (map with_Earth3_Index data)
     < length (map with_Earth3_Index data)"
proof -
  have "with_Earth3_Index (data ! 5) \<in> set (map with_Earth3_Index data)"
    by (simp add: data_def)
  moreover have "Earth3_Index (with_Earth3_Index (data ! 5)) = Some (fl 66.8)"
    using data_indices by (simp add: data_def)
  moreover have "65 \<le> fl 66.8 \<and> fl 66.8 < 70"
    by (simp add: fl_eval)
  ultimately have "\<exists>r v. r \<in> set (map with_Earth3_Index data) \<and> Earth3_Index r = Some v \<and>
      65 \<le> v \<and> v < 70"
    by (intro exI [of _ "with_Earth3_Index (data ! 5)"] exI [of _ "fl 66.8"]) simp
  with count_invariant [of "map with_Earth3_Index data"] show ?thesis by blast
qed

section \<open>The second worked example\<close>

text \<open>
  C5. An entity with Finance 65, AI Governance 59, Climate 50, Equity 62 and
  Sustainability 55 has the index 58.2, the colour red (critical), and exactly the three
  alerts of the rules in their order: low overall readiness, AI governance weak, climate
  resilience low. The index is the double that the literal 58.2 denotes.
\<close>

theorem worked_example_2:
  assumes "Finance d = Some 65" and "AI_Governance d = Some 59" and "Climate d = Some 50"
    and "Equity d = Some 62" and "Sustainability d = Some 55"
  shows "Earth3_Index (with_Earth3_Index d) = Some (fl 58.2) \<and>
         fl 58.2 = 4095460911140045 / 2 ^ 46 \<and>
         status_color (Earth3_Index (with_Earth3_Index d)) = ''red'' \<and>
         alerts fmt [with_Earth3_Index d] =
           [(org d, ''Low overall readiness'', ''Index '' @ fmt (Some (fl 58.2))),
            (org d, ''AI governance weak'', ''AI Gov '' @ fmt (Some 59)),
            (org d, ''Climate resilience low'', ''Climate '' @ fmt (Some 50))]"
proof -
  have "round1 (mean (map Some [65, 59, 50, 62, 55])) = Some (fl 58.2)"
    by (simp add: mean_def round1_def) (simp add: around1_def fl_eval)
  with index_five [OF assms]
  have idx: "Earth3_Index (with_Earth3_Index d) = Some (fl 58.2)" by simp
  have val: "fl 58.2 = 4095460911140045 / 2 ^ 46" by (simp add: fl_eval)
  then have lt: "fl 58.2 < 65" by simp
  then have "status_color (Some (fl 58.2)) = ''red''"
    by (simp add: status_color_def py_lt_def)
  moreover have "entity_alerts fmt (with_Earth3_Index d) =
      [(org d, ''Low overall readiness'', ''Index '' @ fmt (Some (fl 58.2))),
       (org d, ''AI governance weak'', ''AI Gov '' @ fmt (Some 59)),
       (org d, ''Climate resilience low'', ''Climate '' @ fmt (Some 50))]"
    using assms idx lt by (simp add: entity_alerts_def with_Earth3_Index_fields py_lt_def)
  ultimately show ?thesis using idx val by (simp add: alerts_concat)
qed

theorem worked_example_2_witness:
  "Earth3_Index (with_Earth3_Index (data ! 3)) = Some (fl 58.2) \<and>
   status_color (Earth3_Index (with_Earth3_Index (data ! 3))) = ''red'' \<and>
   (\<forall>fmt. alerts fmt [with_Earth3_Index (data ! 3)] =
      [(''GreenEnergy Ltd'', ''Low overall readiness'', ''Index '' @ fmt (Some (fl 58.2))),
       (''GreenEnergy Ltd'', ''AI governance weak'', ''AI Gov '' @ fmt (Some 59)),
       (''GreenEnergy Ltd'', ''Climate resilience low'', ''Climate '' @ fmt (Some 50))])"
proof -
  have m: "Finance (data ! 3) = Some 65" "AI_Governance (data ! 3) = Some 59"
    "Climate (data ! 3) = Some 50" "Equity (data ! 3) = Some 62"
    "Sustainability (data ! 3) = Some 55"
    by (simp_all add: data_def)
  have n: "org (data ! 3) = ''GreenEnergy Ltd''"
    by (simp add: data_def)
  have a: "Earth3_Index (with_Earth3_Index (data ! 3)) = Some (fl 58.2)"
    and b: "status_color (Earth3_Index (with_Earth3_Index (data ! 3))) = ''red''"
    using worked_example_2 [OF m] by blast+
  have "alerts fmt [with_Earth3_Index (data ! 3)] =
      [(''GreenEnergy Ltd'', ''Low overall readiness'', ''Index '' @ fmt (Some (fl 58.2))),
       (''GreenEnergy Ltd'', ''AI governance weak'', ''AI Gov '' @ fmt (Some 59)),
       (''GreenEnergy Ltd'', ''Climate resilience low'', ''Climate '' @ fmt (Some 50))]" for fmt
    using worked_example_2 [OF m, of fmt] unfolding n by blast
  with a b show ?thesis by blast
qed

section \<open>Dicts with a missing or malformed metric\<close>

lemma has_column_iff: "has_column k ds \<longleftrightarrow> \<not> (\<forall>d\<in>set ds. entries d k = None)"
  by (simp add: has_column_def list_ex_iff)

lemma is_text_iff:
  "(case v of Some (PyStr s) \<Rightarrow> True | _ \<Rightarrow> False) \<longleftrightarrow> (\<exists>s. v = Some (PyStr s))"
  by (simp split: option.split py_value.split)

lemma has_text_iff:
  "has_text d \<longleftrightarrow> (\<exists>k\<in>set metric_cols. \<exists>s. entries d k = Some (PyStr s))"
  by (simp add: has_text_def list_ex_iff is_text_iff)

lemma length_dropna: "length (dropna xs) \<le> length xs"
  by (induction xs rule: dropna.induct) simp_all

lemma metric_cells_frame_row: "metric_cells (frame_row d) = map (cell d) metric_cols"
  by (simp add: metric_cells_def frame_row_def metric_cols_def)

lemma index_None_iff: "round1 (mean xs) = None \<longleftrightarrow> dropna xs = []"
  by (simp add: round1_def mean_def split: list.splits)

lemma map_Some_dropna: "xs = map Some vs \<Longrightarrow> dropna xs = vs"
  by (induction vs arbitrary: xs) auto

lemma mean_dropna: "mean xs = mean (map Some (dropna xs))"
proof -
  have "dropna (map Some (dropna xs)) = dropna xs" by (rule map_Some_dropna) simp
  then show ?thesis by (simp add: mean_def)
qed

text \<open>
  C6, as the specification states it, fails: a dict without \<open>Climate\<close>, in a list where
  another dict has the key, is loaded without an exception, and its index is the mean of
  the four values it has.
\<close>

theorem missing_metric_counterexample:
  "get_fake_orgs_from [unilever_dict, nippon_no_climate] =
     Inr [with_Earth3_Index (frame_row unilever_dict),
          with_Earth3_Index (frame_row nippon_no_climate)] \<and>
   entries nippon_no_climate ''Climate'' = None \<and>
   metric_cells (frame_row nippon_no_climate) = [Some 82, Some 88, None, Some 79, Some 85] \<and>
   Earth3_Index (with_Earth3_Index (frame_row nippon_no_climate)) = Some ((82 + 88 + 79 + 85) / 4)"
proof -
  have "get_fake_orgs_from [unilever_dict, nippon_no_climate] =
      Inr [with_Earth3_Index (frame_row unilever_dict),
           with_Earth3_Index (frame_row nippon_no_climate)]"
    by (simp add: get_fake_orgs_from_def has_column_def has_text_def metric_cols_def
        unilever_dict_def nippon_no_climate_def)
  moreover have c: "metric_cells (frame_row nippon_no_climate) =
      [Some 82, Some 88, None, Some 79, Some 85]"
    by (simp add: metric_cells_frame_row metric_cols_def cell_def nippon_no_climate_def)
  moreover have "round1 (mean [Some 82, Some 88, None, Some 79, Some 85]) =
      Some ((82 + 88 + 79 + 85) / 4)"
    by (simp add: mean_def round1_def) (simp add: around1_def fl_eval)
  moreover have "entries nippon_no_climate ''Climate'' = None"
    by (simp add: nippon_no_climate_def)
  ultimately show ?thesis by (simp add: Earth3_Index_with)
qed

lemma load_cases:
  "get_fake_orgs_from ds =
     (if \<exists>k\<in>set [''Finance'', ''AI Governance'', ''Climate'', ''Equity'', ''Sustainability''].
           \<forall>d\<in>set ds. entries d k = None
      then Inl KeyError
      else if \<exists>d\<in>set ds.
           \<exists>k\<in>set [''Finance'', ''AI Governance'', ''Climate'', ''Equity'', ''Sustainability''].
           \<exists>s. entries d k = Some (PyStr s)
      then Inl TypeError
      else Inr (map (\<lambda>d. with_Earth3_Index (frame_row d)) ds))"
  unfolding get_fake_orgs_from_def list_all_iff list_ex_iff has_column_iff has_text_iff
    metric_cols_def
  by auto

lemma loaded_row:
  fixes d :: py_dict
  defines "r \<equiv> with_Earth3_Index (frame_row d)"
  shows "org r = dict_org d \<and>
     metric_cells r =
       map (\<lambda>k. case entries d k of Some (PyFloat x) \<Rightarrow> x | _ \<Rightarrow> None)
         [''Finance'', ''AI Governance'', ''Climate'', ''Equity'', ''Sustainability''] \<and>
     (Earth3_Index r = None \<longleftrightarrow> dropna (metric_cells r) = []) \<and>
     (dropna (metric_cells r) \<noteq> [] \<and> (\<forall>v\<in>set (dropna (metric_cells r)). 0 \<le> v \<and> v \<le> 100) \<longrightarrow>
        (\<exists>i. Earth3_Index r = Some i \<and>
             \<bar>i - sum_list (dropna (metric_cells r)) / real (length (dropna (metric_cells r)))\<bar>
               \<le> 1 / 20 + 1 / 2 ^ 41))"
proof (intro conjI impI)
  show "org r = dict_org d"
    by (simp add: r_def with_Earth3_Index_fields frame_row_def)
next
  show "metric_cells r =
      map (\<lambda>k. case entries d k of Some (PyFloat x) \<Rightarrow> x | _ \<Rightarrow> None)
        [''Finance'', ''AI Governance'', ''Climate'', ''Equity'', ''Sustainability'']"
    by (simp add: r_def with_Earth3_Index_fields metric_cells_frame_row metric_cols_def cell_def)
next
  show "Earth3_Index r = None \<longleftrightarrow> dropna (metric_cells r) = []"
    by (simp add: r_def Earth3_Index_with with_Earth3_Index_fields index_None_iff)
next
  let ?vs = "dropna (metric_cells r)"
  assume a: "?vs \<noteq> [] \<and> (\<forall>v\<in>set ?vs. 0 \<le> v \<and> v \<le> 100)"
  have c: "metric_cells r = metric_cells (frame_row d)"
    by (simp add: r_def with_Earth3_Index_fields)
  have "length ?vs \<le> length (metric_cells r)" by (rule length_dropna)
  then have l: "length ?vs \<le> 20" by (simp add: metric_cells_def)
  have "\<exists>i. round1 (mean (map Some ?vs)) = Some i \<and> 0 \<le> i \<and> i \<le> 100 \<and>
      \<bar>i - sum_list ?vs / real (length ?vs)\<bar> \<le> 1 / 20 + 1 / 2 ^ 41 \<and>
      (\<exists>k::int. i = fl (of_int k / 10))"
    using a l by (intro round1_mean_bounds) simp_all
  moreover have "Earth3_Index r = round1 (mean (map Some ?vs))"
    unfolding c by (simp add: r_def Earth3_Index_with mean_dropna [symmetric])
  ultimately show "\<exists>i. Earth3_Index r = Some i \<and>
      \<bar>i - sum_list ?vs / real (length ?vs)\<bar> \<le> 1 / 20 + 1 / 2 ^ 41"
    by auto
qed

text \<open>
  C6, amended. Loading raises KeyError exactly when one of the five metric keys is in no
  dict of the list. Otherwise it raises TypeError exactly when some dict holds a string
  under a metric key: a malformed value is refused. Otherwise every dict is loaded. A
  loaded row has under each metric label the float of the dict, and NaN where the dict
  has no such key: no number is put in the place of a missing value. Its index is NaN
  exactly when the row has no metric value; otherwise it is computed from the values
  present alone, and for values between 0 and 100 it is at most \<open>1 / 20 + 2 ^ - 41\<close>
  away from their arithmetic mean. So a record with a missing field is refused only when
  the field is missing from every record, and its index can be computed over fewer than
  five values.
\<close>

theorem load_with_missing_metric:
  "(get_fake_orgs_from ds = Inl KeyError \<longleftrightarrow>
      (\<exists>k\<in>set [''Finance'', ''AI Governance'', ''Climate'', ''Equity'', ''Sustainability''].
         \<forall>d\<in>set ds. entries d k = None)) \<and>
   (get_fake_orgs_from ds = Inl TypeError \<longleftrightarrow>
      \<not> (\<exists>k\<in>set [''Finance'', ''AI Governance'', ''Climate'', ''Equity'', ''Sustainability''].
         \<forall>d\<in>set ds. entries d k = None) \<and>
      (\<exists>d\<in>set ds.
         \<exists>k\<in>set [''Finance'', ''AI Governance'', ''Climate'', ''Equity'', ''Sustainability''].
         \<exists>s. entries d k = Some (PyStr s))) \<and>
   ((\<exists>rows. get_fake_orgs_from ds = Inr rows) \<longleftrightarrow>
      \<not> (\<exists>k\<in>set [''Finance'', ''AI Governance'', ''Climate'', ''Equity'', ''Sustainability''].
         \<forall>d\<in>set ds. entries d k = None) \<and>
      \<not> (\<exists>d\<in>set ds.
         \<exists>k\<in>set [''Finance'', ''AI Governance'', ''Climate'', ''Equity'', ''Sustainability''].
         \<exists>s. entries d k = Some (PyStr s))) \<and>
   (\<forall>rows. get_fake_orgs_from ds = Inr rows \<longrightarrow>
      length rows = length ds \<and>
      (\<forall>j<length ds.
         org (rows ! j) = dict_org (ds ! j) \<and>
         metric_cells (rows ! j) =
           map (\<lambda>k. case entries (ds ! j) k of Some (PyFloat x) \<Rightarrow> x | _ \<Rightarrow> None)
             [''Finance'', ''AI Governance'', ''Climate'', ''Equity'', ''Sustainability''] \<and>
         (Earth3_Index (rows ! j) = None \<longleftrightarrow> dropna (metric_cells (rows ! j)) = []) \<and>
         (dropna (metric_cells (rows ! j)) \<noteq> [] \<and>
          (\<forall>v\<in>set (dropna (metric_cells (rows ! j))). 0 \<le> v \<and> v \<le> 100) \<longrightarrow>
            (\<exists>i. Earth3_Index (rows ! j) = Some i \<and>
                 \<bar>i - sum_list (dropna (metric_cells (rows ! j)))
                       / real (length (dropna (metric_cells (rows ! j))))\<bar>
                   \<le> 1 / 20 + 1 / 2 ^ 41))))"
proof -
  have k: "get_fake_orgs_from ds = Inl KeyError \<longleftrightarrow>
      (\<exists>k\<in>set [''Finance'', ''AI Governance'', ''Climate'', ''Equity'', ''Sustainability''].
         \<forall>d\<in>set ds. entries d k = None)"
    by (simp only: load_cases split: if_split) simp
  have t: "get_fake_orgs_from ds = Inl TypeError \<longleftrightarrow>
      \<not> (\<exists>k\<in>set [''Finance'', ''AI Governance'', ''Climate'', ''Equity'', ''Sustainability''].
         \<forall>d\<in>set ds. entries d k = None) \<and>
      (\<exists>d\<in>set ds.
         \<exists>k\<in>set [''Finance'', ''AI Governance'', ''Climate'', ''Equity'', ''Sustainability''].
         \<exists>s. entries d k = Some (PyStr s))"
    by (simp only: load_cases split: if_split) simp
  have r: "(\<exists>rows. get_fake_orgs_from ds = Inr rows) \<longleftrightarrow>
      \<not> (\<exists>k\<in>set [''Finance'', ''AI Governance'', ''Climate'', ''Equity'', ''Sustainability''].
         \<forall>d\<in>set ds. entries d k = None) \<and>
      \<not> (\<exists>d\<in>set ds.
         \<exists>k\<in>set [''Finance'', ''AI Governance'', ''Climate'', ''Equity'', ''Sustainability''].
         \<exists>s. entries d k = Some (PyStr s))"
    by (simp only: load_cases split: if_split) simp
  have l: "length rows = length ds \<and>
      (\<forall>j<length ds.
         org (rows ! j) = dict_org (ds ! j) \<and>
         metric_cells (rows ! j) =
           map (\<lambda>k. case entries (ds ! j) k of Some (PyFloat x) \<Rightarrow> x | _ \<Rightarrow> None)
             [''Finance'', ''AI Governance'', ''Climate'', ''Equity'', ''Sustainability''] \<and>
         (Earth3_Index (rows ! j) = None \<longleftrightarrow> dropna (metric_cells (rows ! j)) = []) \<and>
         (dropna (metric_cells (rows ! j)) \<noteq> [] \<and>
          (\<forall>v\<in>set (dropna (metric_cells (rows ! j))). 0 \<le> v \<and> v \<le> 100) \<longrightarrow>
            (\<exists>i. Earth3_Index (rows ! j) = Some i \<and>
                 \<bar>i - sum_list (dropna (metric_cells (rows ! j)))
                       / real (length (dropna (metric_cells (rows ! j))))\<bar>
                   \<le> 1 / 20 + 1 / 2 ^ 41)))"
    if "get_fake_orgs_from ds = Inr rows" for rows
  proof (intro conjI allI impI)
    from that have rows: "rows = map (\<lambda>d. with_Earth3_Index (frame_row d)) ds"
      by (simp only: load_cases split: if_split_asm) simp_all
    then show "length rows = length ds" by simp
    fix j
    assume "j < length ds"
    with rows have e: "rows ! j = with_Earth3_Index (frame_row (ds ! j))" by simp
    note p = loaded_row [of "ds ! j", folded e]
    from p show "org (rows ! j) = dict_org (ds ! j)" by blast
    from p show "metric_cells (rows ! j) =
        map (\<lambda>k. case entries (ds ! j) k of Some (PyFloat x) \<Rightarrow> x | _ \<Rightarrow> None)
          [''Finance'', ''AI Governance'', ''Climate'', ''Equity'', ''Sustainability'']"
      by blast
    from p show "Earth3_Index (rows ! j) = None \<longleftrightarrow> dropna (metric_cells (rows ! j)) = []"
      by blast
    assume "dropna (metric_cells (rows ! j)) \<noteq> [] \<and>
        (\<forall>v\<in>set (dropna (metric_cells (rows ! j))). 0 \<le> v \<and> v \<le> 100)"
    with p show "\<exists>i. Earth3_Index (rows ! j) = Some i \<and>
        \<bar>i - sum_list (dropna (metric_cells (rows ! j)))
              / real (length (dropna (metric_cells (rows ! j))))\<bar>
          \<le> 1 / 20 + 1 / 2 ^ 41"
      by blast
  qed
  from k t r l show ?thesis by blast
qed

theorem load_with_missing_metric_witness:
  "get_fake_orgs_from [nippon_no_climate] = Inl KeyError \<and>
   get_fake_orgs_from [] = Inl KeyError \<and>
   get_fake_orgs_from [unilever_dict, acme_text_finance] = Inl TypeError \<and>
   (\<exists>rows. get_fake_orgs_from [nippon_nan_climate] = Inr rows) \<and>
   (\<exists>rows i. get_fake_orgs_from [unilever_dict, nippon_no_climate] = Inr rows \<and>
      length rows = 2 \<and>
      metric_cells (rows ! 1) = [Some 82, Some 88, None, Some 79, Some 85] \<and>
      Earth3_Index (rows ! 1) = Some i \<and>
      \<bar>i - (82 + 88 + 79 + 85) / 4\<bar> \<le> 1 / 20 + 1 / 2 ^ 41)"
proof -
  have 1: "get_fake_orgs_from [nippon_no_climate] = Inl KeyError"
    using load_with_missing_metric [of "[nippon_no_climate]", THEN conjunct1]
    by (simp add: nippon_no_climate_def)
  have 2: "get_fake_orgs_from [] = Inl KeyError"
    using load_with_missing_metric [of "[]", THEN conjunct1] by auto
  have 3: "get_fake_orgs_from [unilever_dict, acme_text_finance] = Inl TypeError"
    using load_with_missing_metric [of "[unilever_dict, acme_text_finance]",
        THEN conjunct2, THEN conjunct1]
    by (simp add: unilever_dict_def acme_text_finance_def)
  have 4: "\<exists>rows. get_fake_orgs_from [nippon_nan_climate] = Inr rows"
    using load_with_missing_metric [of "[nippon_nan_climate]",
        THEN conjunct2, THEN conjunct2, THEN conjunct1]
    by (simp add: nippon_nan_climate_def)
  let ?ds = "[unilever_dict, nippon_no_climate]"
  note w = load_with_missing_metric [of ?ds]
  have "\<exists>rows. get_fake_orgs_from ?ds = Inr rows"
    using w [THEN conjunct2, THEN conjunct2, THEN conjunct1]
    by (simp add: unilever_dict_def nippon_no_climate_def)
  then obtain rows where rows: "get_fake_orgs_from ?ds = Inr rows" by blast
  from w [THEN conjunct2, THEN conjunct2, THEN conjunct2, THEN spec, THEN mp, OF rows]
  have len: "length rows = length ?ds"
    and row: "\<forall>j<length ?ds.
      org (rows ! j) = dict_org (?ds ! j) \<and>
      metric_cells (rows ! j) =
        map (\<lambda>k. case entries (?ds ! j) k of Some (PyFloat x) \<Rightarrow> x | _ \<Rightarrow> None)
          [''Finance'', ''AI Governance'', ''Climate'', ''Equity'', ''Sustainability''] \<and>
      (Earth3_Index (rows ! j) = None \<longleftrightarrow> dropna (metric_cells (rows ! j)) = []) \<and>
      (dropna (metric_cells (rows ! j)) \<noteq> [] \<and>
       (\<forall>v\<in>set (dropna (metric_cells (rows ! j))). 0 \<le> v \<and> v \<le> 100) \<longrightarrow>
         (\<exists>i. Earth3_Index (rows ! j) = Some i \<and>
              \<bar>i - sum_list (dropna (metric_cells (rows ! j)))
                    / real (length (dropna (metric_cells (rows ! j))))\<bar>
                \<le> 1 / 20 + 1 / 2 ^ 41))"
    by blast+
  have "(1::nat) < length ?ds" by simp
  with row have c: "metric_cells (rows ! 1) =
      map (\<lambda>k. case entries (?ds ! 1) k of Some (PyFloat x) \<Rightarrow> x | _ \<Rightarrow> None)
        [''Finance'', ''AI Governance'', ''Climate'', ''Equity'', ''Sustainability'']"
    and b: "dropna (metric_cells (rows ! 1)) \<noteq> [] \<and>
       (\<forall>v\<in>set (dropna (metric_cells (rows ! 1))). 0 \<le> v \<and> v \<le> 100) \<longrightarrow>
         (\<exists>i. Earth3_Index (rows ! 1) = Some i \<and>
              \<bar>i - sum_list (dropna (metric_cells (rows ! 1)))
                    / real (length (dropna (metric_cells (rows ! 1))))\<bar>
                \<le> 1 / 20 + 1 / 2 ^ 41)"
    by blast+
  from c have cells: "metric_cells (rows ! 1) = [Some 82, Some 88, None, Some 79, Some 85]"
    by (simp add: nippon_no_climate_def)
  then have d: "dropna (metric_cells (rows ! 1)) = [82, 88, 79, 85]" by simp
  from b obtain i where "Earth3_Index (rows ! 1) = Some i"
    and "\<bar>i - sum_list [82, 88, 79, 85] / real (length [82, 88, 79, 85 :: real])\<bar>
      \<le> 1 / 20 + 1 / 2 ^ 41"
    unfolding d by auto
  then have "Earth3_Index (rows ! 1) = Some i \<and>
      \<bar>i - (82 + 88 + 79 + 85) / 4\<bar> \<le> 1 / 20 + 1 / 2 ^ 41"
    by simp
  with rows len cells have 5: "\<exists>rows i. get_fake_orgs_from ?ds = Inr rows \<and>
      length rows = 2 \<and>
      metric_cells (rows ! 1) = [Some 82, Some 88, None, Some 79, Some 85] \<and>
      Earth3_Index (rows ! 1) = Some i \<and>
      \<bar>i - (82 + 88 + 79 + 85) / 4\<bar> \<le> 1 / 20 + 1 / 2 ^ 41"
    by (intro exI [of _ rows] exI [of _ i]) simp
  from 1 2 3 4 5 show ?thesis by blast
qed

section \<open>Looking an entity up by name\<close>

lemma sel_Cons: "sel (r # df) c = (if org r = c then Inr r else sel df c)"
  by (simp add: sel_def)

lemma sel_absent: "c \<notin> org ` set df \<Longrightarrow> sel df c = Inl IndexError"
  by (induction df) (auto simp: sel_Cons, simp add: sel_def)

lemma sel_present: "c \<in> org ` set df \<Longrightarrow> \<exists>r. sel df c = Inr r \<and> r \<in> set df \<and> org r = c"
  by (induction df) (auto simp: sel_Cons)

lemma sel_distinct: "distinct (map org df) \<Longrightarrow> r \<in> set df \<Longrightarrow> sel df (org r) = Inr r"
  by (induction df) (auto simp: sel_Cons)

text \<open>
  C7. A name that no row has makes the lookup raise IndexError; no row is returned in its
  place. A name that some row has gives a row of the frame with that name, and where the
  names are distinct, the row of that entity.
\<close>

theorem sel_lookup:
  "(org_choice \<notin> org ` set df \<longrightarrow> sel df org_choice = Inl IndexError) \<and>
   (org_choice \<in> org ` set df \<longrightarrow>
      (\<exists>r. sel df org_choice = Inr r \<and> r \<in> set df \<and> org r = org_choice)) \<and>
   (distinct (map org df) \<and> r \<in> set df \<longrightarrow> sel df (org r) = Inr r)"
  using sel_absent sel_present sel_distinct by blast

theorem sel_lookup_witness:
  "sel (map with_Earth3_Index data) ''Nobody'' = Inl IndexError \<and>
   sel (map with_Earth3_Index data) ''GlobalBank'' = Inr (with_Earth3_Index (data ! 5))"
proof -
  let ?df = "map with_Earth3_Index data"
  have names: "map org ?df = [''Unilever PLC'', ''ACME Motors'', ''Nippon Auto'',
      ''GreenEnergy Ltd'', ''Continental Foods'', ''GlobalBank'']"
    by (simp add: data_def with_Earth3_Index_fields)
  have a: "''Nobody'' \<notin> org ` set ?df"
    unfolding set_map [symmetric] names by simp
  from names have d: "distinct (map org ?df)" by simp
  have m: "with_Earth3_Index (data ! 5) \<in> set ?df" by (simp add: data_def)
  have n: "org (with_Earth3_Index (data ! 5)) = ''GlobalBank''"
    by (simp add: data_def with_Earth3_Index_fields)
  have "sel ?df ''Nobody'' = Inl IndexError"
    using sel_lookup [of "''Nobody''" ?df] a by blast
  moreover have "sel ?df (org (with_Earth3_Index (data ! 5))) = Inr (with_Earth3_Index (data ! 5))"
    using sel_lookup [of _ ?df "with_Earth3_Index (data ! 5)"] d m by blast
  ultimately show ?thesis unfolding n by blast
qed

section \<open>Showing the alerts\<close>

lemma show_alerts_success:
  "St_success m \<in> set (show_alerts as) \<longleftrightarrow>
   as = [] \<and> m = ''No critical alerts detected across monitored entities.''"
  by (auto simp: show_alerts_def)

text \<open>
  C8. The page shows the success message exactly when the alert list of the frame is
  empty; a success call appears in no other case. When the list is not empty the page
  shows one markdown line per alert, in the list's order: a dash, the entity name in
  bold, a long dash, the rule, and the observed value in parentheses.
\<close>

theorem show_alerts_all_clear:
  "(show_alerts (alerts fmt df) =
      [St_success ''No critical alerts detected across monitored entities.'']
      \<longleftrightarrow> alerts fmt df = []) \<and>
   ((\<exists>m. St_success m \<in> set (show_alerts (alerts fmt df))) \<longleftrightarrow> alerts fmt df = []) \<and>
   (alerts fmt df \<noteq> [] \<longrightarrow>
      show_alerts (alerts fmt df) =
        map (\<lambda>(name, rule, detail).
               St_markdown (''- **'' @ name @ ''** '' @ [CHR 0xE2, CHR 0x80, CHR 0x94] @ '' ''
                 @ rule @ '' ('' @ detail @ '')''))
          (alerts fmt df))"
proof -
  have "show_alerts as = [St_success ''No critical alerts detected across monitored entities.'']
      \<longleftrightarrow> as = []" for as
    by (cases as) (simp_all add: show_alerts_def)
  moreover have "(\<lambda>a. St_markdown (alert_line a)) =
      (\<lambda>(name, rule, detail).
         St_markdown (''- **'' @ name @ ''** '' @ [CHR 0xE2, CHR 0x80, CHR 0x94] @ '' ''
           @ rule @ '' ('' @ detail @ '')''))"
    by (rule ext) (simp add: alert_line_def em_dash_def split: prod.split)
  ultimately show ?thesis by (simp add: show_alerts_success) (simp add: show_alerts_def)
qed

theorem show_alerts_all_clear_witness:
  "show_alerts (alerts (\<lambda>x. ''55.0'') [with_Earth3_Index (data ! 5)]) =
     [St_markdown (''- **GlobalBank** '' @ [CHR 0xE2, CHR 0x80, CHR 0x94]
        @ '' AI governance weak (AI Gov 55.0)'')] \<and>
   show_alerts (alerts (\<lambda>x. ''55.0'') [with_Earth3_Index (data ! 0)]) =
     [St_success ''No critical alerts detected across monitored entities.'']"
proof -
  have i5: "Earth3_Index (with_Earth3_Index (data ! 5)) = Some (fl 66.8)"
    and i0: "Earth3_Index (with_Earth3_Index (data ! 0)) = Some (fl 74.6)"
    using data_indices by (simp_all add: data_def)
  have v: "\<not> fl 66.8 < 65" "\<not> fl 74.6 < 65" by (simp_all add: fl_eval)
  have a5: "alerts (\<lambda>x. ''55.0'') [with_Earth3_Index (data ! 5)] =
      [(''GlobalBank'', ''AI governance weak'', ''AI Gov 55.0'')]"
    using i5 v by (simp add: alerts_concat entity_alerts_def with_Earth3_Index_fields py_lt_def
        data_def)
  have a0: "alerts (\<lambda>x. ''55.0'') [with_Earth3_Index (data ! 0)] = []"
    using i0 v by (simp add: alerts_concat entity_alerts_def with_Earth3_Index_fields py_lt_def
        data_def)
  have "show_alerts (alerts (\<lambda>x. ''55.0'') [with_Earth3_Index (data ! 5)]) =
      [St_markdown (''- **GlobalBank** '' @ [CHR 0xE2, CHR 0x80, CHR 0x94]
         @ '' AI governance weak (AI Gov 55.0)'')]"
    using show_alerts_all_clear [of "\<lambda>x. ''55.0''" "[with_Earth3_Index (data ! 5)]"]
    unfolding a5 by simp
  moreover have "show_alerts (alerts (\<lambda>x. ''55.0'') [with_Earth3_Index (data ! 0)]) =
      [St_success ''No critical alerts detected across monitored entities.'']"
    using show_alerts_all_clear [of "\<lambda>x. ''55.0''" "[with_Earth3_Index (data ! 0)]"]
    unfolding a0 by simp
  ultimately show ?thesis by blast
qed

section \<open>The global index\<close>





end
